theory Spec2Isabelle
  imports Main "HOL-Library.AList"
begin

section \<open>PayPalResponse: the response record of \<^verbatim>\<open>paypal/response.py\<close>\<close>

text \<open>
  The module parses the name-value-pair answer of the payment API with the standard
  library's \<^verbatim>\<open>parse_qs\<close>, keeps the decoded dictionary in \<^verbatim>\<open>raw\<close> and reads it back
  through \<^verbatim>\<open>__getitem__\<close> (dict style), \<^verbatim>\<open>__getattr__\<close> (attribute style) and the
  property \<^verbatim>\<open>success\<close>.

  Strings are lists of 8-bit characters: the byte strings of Python 2, and the ASCII text
  of the protocol in Python 3. A Python exception is a value of the type \<open>error\<close>, and a
  function that can raise returns \<open>error + 'a\<close> with \<open>Inl\<close> for the exception. A
  dictionary is an association list in insertion order, read with \<open>map_of\<close>.
\<close>

subsection \<open>Strings\<close>

text \<open>\<^verbatim>\<open>str.upper()\<close> on ASCII text: the letters a to z are moved to A to Z.\<close>

definition upper_char :: "char \<Rightarrow> char" where
  "upper_char c =
     (let n = (of_char c :: nat) in if 97 \<le> n \<and> n \<le> 122 then char_of (n - 32) else c)"

definition upper :: "string \<Rightarrow> string" where
  "upper s = map upper_char s"

text \<open>\<^verbatim>\<open>s.split(sep)\<close> for a one-character separator: the empty string gives \<open>['']\<close>.\<close>

fun str_split :: "char \<Rightarrow> string \<Rightarrow> string list" where
  "str_split sep [] = [[]]"
| "str_split sep (c # cs) =
     (if c = sep then [] # str_split sep cs
      else (case str_split sep cs of [] \<Rightarrow> [[c]] | p # ps \<Rightarrow> (c # p) # ps))"

text \<open>\<^verbatim>\<open>s.split(sep, 1)\<close>: one piece when \<open>sep\<close> does not occur, else the text before
  the first \<open>sep\<close> and the text after it.\<close>

definition str_split1 :: "char \<Rightarrow> string \<Rightarrow> string list" where
  "str_split1 sep s =
     (case dropWhile (\<lambda>c. c \<noteq> sep) s of
        [] \<Rightarrow> [s]
      | _ # rest \<Rightarrow> [takeWhile (\<lambda>c. c \<noteq> sep) s, rest])"

text \<open>\<^verbatim>\<open>s.replace('+', ' ')\<close>.\<close>

definition replace_plus :: "string \<Rightarrow> string" where
  "replace_plus s = map (\<lambda>c. if c = CHR ''+'' then CHR '' '' else c) s"

subsection \<open>The decoder\<close>

text \<open>
  Modelled from the spec: \<^verbatim>\<open>parse_qs\<close> is the decoder of Python's standard library
  (\<^verbatim>\<open>urllib.parse\<close>, \<^verbatim>\<open>urlparse\<close> in Python 2), imported by the module and not part of
  this repository. The spec gives its rules: split on \<^verbatim>\<open>&\<close>, split each pair on the
  first \<^verbatim>\<open>=\<close>, percent-decode name and value, collect the values of a repeated name in
  decoding order, and decode the empty string to the empty mapping. The module calls it
  with the library's defaults, under which an empty piece, a piece without \<^verbatim>\<open>=\<close> and a
  pair with an empty value are skipped, and \<^verbatim>\<open>+\<close> stands for a space. A percent escape
  is \<^verbatim>\<open>%\<close> and two hexadecimal digits; anything else after \<^verbatim>\<open>%\<close> is kept as it is.
\<close>

definition hexval :: "char \<Rightarrow> nat option" where
  "hexval c =
     (let n = (of_char c :: nat) in
      if 48 \<le> n \<and> n \<le> 57 then Some (n - 48)
      else if 65 \<le> n \<and> n \<le> 70 then Some (n - 55)
      else if 97 \<le> n \<and> n \<le> 102 then Some (n - 87)
      else None)"

fun unquote :: "string \<Rightarrow> string" where
  "unquote (c # h1 # h2 # cs) =
     (if c = CHR ''%'' then
        (case (hexval h1, hexval h2) of
           (Some a, Some b) \<Rightarrow> char_of (16 * a + b) # unquote cs
         | _ \<Rightarrow> c # unquote (h1 # h2 # cs))
      else c # unquote (h1 # h2 # cs))"
| "unquote cs = cs"

definition parse_pair :: "string \<Rightarrow> (string \<times> string) list" where
  "parse_pair name_value =
     (if name_value = [] then []
      else (case str_split1 CHR ''='' name_value of
              [n, v] \<Rightarrow>
                (if v \<noteq> [] then [(unquote (replace_plus n), unquote (replace_plus v))]
                 else [])
            | _ \<Rightarrow> []))"

definition parse_qsl :: "string \<Rightarrow> (string \<times> string) list" where
  "parse_qsl qs = concat (map parse_pair (str_split CHR ''&'' qs))"

type_synonym rawdict = "(string \<times> string list) list"

text \<open>The loop body of \<^verbatim>\<open>parse_qs\<close>: append to the list of a name already present, else
  add the name at the end with a one-element list.\<close>

definition add_value :: "rawdict \<Rightarrow> string \<times> string \<Rightarrow> rawdict" where
  "add_value d nv =
     (case nv of (name, v) \<Rightarrow>
        (case map_of d name of
           Some vs \<Rightarrow> AList.update name (vs @ [v]) d
         | None \<Rightarrow> d @ [(name, [v])]))"

definition parse_qs :: "string \<Rightarrow> rawdict" where
  "parse_qs qs = foldl add_value [] (parse_qsl qs)"

subsection \<open>The record\<close>

text \<open>
  Modelled from the spec: the configuration class lives in another module of the
  package, which is not among the sources. The response reads two string attributes of
  it, \<^verbatim>\<open>ACK_SUCCESS\<close> and \<^verbatim>\<open>ACK_SUCCESS_WITH_WARNING\<close>.
\<close>

record PayPalConfig =
  ACK_SUCCESS :: string
  ACK_SUCCESS_WITH_WARNING :: string

record PayPalResponse =
  raw :: rawdict
  config :: PayPalConfig

text \<open>
  The exceptions the module can raise. \<open>KeyError k\<close> is the dictionary's error for the
  key \<open>k\<close> it was asked for; \<open>AttributeError a\<close> carries its argument \<open>a\<close>, which is the
  attribute name in \<^verbatim>\<open>raise AttributeError(key)\<close> and the interpreter's message when a
  list is asked for the attribute \<^verbatim>\<open>upper\<close>.
\<close>

datatype error = KeyError string | AttributeError string

text \<open>What \<^verbatim>\<open>__getitem__\<close> returns: a string, or the list of strings.\<close>

datatype pyvalue = Str string | List "string list"

definition list_has_no_upper :: string where
  "list_has_no_upper =
     [CHR 0x27] @ ''list'' @ [CHR 0x27] @ '' object has no attribute '' @
     [CHR 0x27] @ ''upper'' @ [CHR 0x27]"

text \<open>\<^verbatim>\<open>__getitem__\<close> (lines 96 to 112): the key is uppercased, looked up in \<^verbatim>\<open>raw\<close>,
  and a list of length one is replaced by its element.\<close>

definition getitem :: "PayPalResponse \<Rightarrow> string \<Rightarrow> error + pyvalue" where
  "getitem self key0 =
     (let key = upper key0 in
      case map_of (raw self) key of
        None \<Rightarrow> Inl (KeyError key)
      | Some v \<Rightarrow> (if length v = 1 then Inr (Str (v ! 0)) else Inr (List v)))"

text \<open>\<^verbatim>\<open>__getattr__\<close> (lines 79 to 93): \<^verbatim>\<open>self[key]\<close>, with a \<^verbatim>\<open>KeyError\<close> turned into
  \<^verbatim>\<open>AttributeError(key)\<close> for the key as it was given.\<close>

definition getattr :: "PayPalResponse \<Rightarrow> string \<Rightarrow> error + pyvalue" where
  "getattr self key =
     (case getitem self key of
        Inl (KeyError _) \<Rightarrow> Inl (AttributeError key)
      | Inl e \<Rightarrow> Inl e
      | Inr v \<Rightarrow> Inr v)"

text \<open>\<^verbatim>\<open>__iter__\<close> and \<^verbatim>\<open>__len__\<close> (lines 114 to 118).\<close>

definition iter :: "PayPalResponse \<Rightarrow> string list" where
  "iter self = map fst (raw self)"

definition len :: "PayPalResponse \<Rightarrow> nat" where
  "len self = length (raw self)"

text \<open>
  \<^verbatim>\<open>items()\<close> is inherited from the read-only mapping base class: it pairs every key of
  \<^verbatim>\<open>__iter__\<close> with \<^verbatim>\<open>self[key]\<close>, so every value goes through \<^verbatim>\<open>__getitem__\<close>, and
  the first lookup that raises ends it. \<^verbatim>\<open>dict(...)\<close> enters the pairs in order, a later
  pair replacing the value of an equal key. The keys come in insertion order, as a
  dictionary of Python 3.7 and later yields them; under an older interpreter the order
  is another one, which changes the order of the pairs and, when several lookups would
  raise, which one is met first, and nothing else.
\<close>

fun items_of :: "PayPalResponse \<Rightarrow> string list \<Rightarrow> error + (string \<times> pyvalue) list" where
  "items_of self [] = Inr []"
| "items_of self (k # ks) =
     (case getitem self k of
        Inl e \<Rightarrow> Inl e
      | Inr v \<Rightarrow> (case items_of self ks of
                   Inl e \<Rightarrow> Inl e
                 | Inr kvs \<Rightarrow> Inr ((k, v) # kvs)))"

definition items :: "PayPalResponse \<Rightarrow> error + (string \<times> pyvalue) list" where
  "items self = items_of self (iter self)"

definition dict :: "(string \<times> pyvalue) list \<Rightarrow> (string \<times> pyvalue) list" where
  "dict kvs = foldl (\<lambda>d kv. AList.update (fst kv) (snd kv) d) [] kvs"

text \<open>
  \<^verbatim>\<open>pformat\<close> is the pretty-printer of the standard library, a function of the
  dictionary it is given. Its text is represented by that dictionary: two renderings
  that are equal here are equal strings in Python.
\<close>

datatype rendering = Pformat "(string \<times> pyvalue) list"

text \<open>\<^verbatim>\<open>__str__\<close> (lines 56 to 64) and \<^verbatim>\<open>formatted\<close> (lines 66 to 71).\<close>

definition str :: "PayPalResponse \<Rightarrow> error + rendering" where
  "str self = (case items self of Inl e \<Rightarrow> Inl e | Inr kvs \<Rightarrow> Inr (Pformat (dict kvs)))"

definition formatted :: "PayPalResponse \<Rightarrow> error + rendering" where
  "formatted self =
     (case items self of Inl e \<Rightarrow> Inl e | Inr kvs \<Rightarrow> Inr (Pformat (dict kvs)))"

text \<open>
  \<^verbatim>\<open>__init__\<close> (lines 40 to 54): the decoded dictionary and the configuration are
  stored, and the argument of \<^verbatim>\<open>logger.debug\<close> is built from \<^verbatim>\<open>self.__str__()\<close> before
  the logger is called, whatever the log level. An exception of \<^verbatim>\<open>__str__\<close> therefore
  leaves the constructor; the logger itself only receives the text.
\<close>

definition init :: "string \<Rightarrow> PayPalConfig \<Rightarrow> error + PayPalResponse" where
  "init query_string cfg =
     (let self = \<lparr>raw = parse_qs query_string, config = cfg\<rparr> in
      case str self of Inl e \<Rightarrow> Inl e | Inr msg \<Rightarrow> Inr self)"

text \<open>
  The getter of the property \<^verbatim>\<open>success\<close> (lines 120 to 130). \<^verbatim>\<open>self.ack\<close> is not a
  member of the object, so it is answered by \<^verbatim>\<open>__getattr__\<close>; \<^verbatim>\<open>.upper()\<close> exists on a
  string and raises \<^verbatim>\<open>AttributeError\<close> on a list; the result is compared with the two
  tokens of the configuration.
\<close>

definition success :: "PayPalResponse \<Rightarrow> error + bool" where
  "success self =
     (case getattr self ''ack'' of
        Inl e \<Rightarrow> Inl e
      | Inr (Str s) \<Rightarrow>
          Inr (upper s \<in> set [ACK_SUCCESS (config self), ACK_SUCCESS_WITH_WARNING (config self)])
      | Inr (List vs) \<Rightarrow> Inl (AttributeError list_has_no_upper))"

text \<open>
  Reading an attribute \<^verbatim>\<open>obj.name\<close> of a response. Python looks the name up on the
  object first: the property \<^verbatim>\<open>success\<close>, the instance attributes \<^verbatim>\<open>raw\<close> and
  \<^verbatim>\<open>config\<close>, the methods of the class, and the names the base classes define (the
  list \<open>base\<close>: their code is not part of the module). \<^verbatim>\<open>__getattr__\<close> is called when
  that lookup raises \<^verbatim>\<open>AttributeError\<close>: because the name is not found, or because the
  getter of a property raised \<^verbatim>\<open>AttributeError\<close> itself.
\<close>

datatype attr =
    Bool bool
  | RawDict rawdict
  | Config PayPalConfig
  | Method string
  | FieldValue pyvalue

definition class_methods :: "string list" where
  "class_methods =
     [''__init__'', ''__str__'', ''formatted'', ''__repr__'', ''__getattr__'',
      ''__getitem__'', ''__iter__'', ''__len__'']"

definition getattr_hook :: "PayPalResponse \<Rightarrow> string \<Rightarrow> error + attr" where
  "getattr_hook self name =
     (case getattr self name of Inl e \<Rightarrow> Inl e | Inr v \<Rightarrow> Inr (FieldValue v))"

definition getattribute :: "string list \<Rightarrow> PayPalResponse \<Rightarrow> string \<Rightarrow> error + attr" where
  "getattribute base self name =
     (if name = ''success'' then
        (case success self of
           Inr b \<Rightarrow> Inr (Bool b)
         | Inl (AttributeError _) \<Rightarrow> getattr_hook self name
         | Inl e \<Rightarrow> Inl e)
      else if name = ''raw'' then Inr (RawDict (raw self))
      else if name = ''config'' then Inr (Config (config self))
      else if name \<in> set class_methods \<or> name \<in> set base then Inr (Method name)
      else getattr_hook self name)"

subsection \<open>Notions used to state the properties\<close>

text \<open>The values decoded for a name, in decoding order.\<close>

definition values_of :: "string \<Rightarrow> (string \<times> string) list \<Rightarrow> string list" where
  "values_of name nvs = map snd (filter (\<lambda>nv. fst nv = name) nvs)"

text \<open>
  The size as the specification words it: the number of field names of the query string
  that are distinct when case is ignored.
\<close>

definition spec_size :: "string \<Rightarrow> nat" where
  "spec_size q = length (remdups (map (\<lambda>nv. upper (fst nv)) (parse_qsl q)))"

text \<open>The configuration of the scenarios: the two success tokens of the API.\<close>

definition scenario_config :: PayPalConfig where
  "scenario_config =
     \<lparr>ACK_SUCCESS = ''SUCCESS'', ACK_SUCCESS_WITH_WARNING = ''SUCCESSWITHWARNING''\<rparr>"

section \<open>Auxiliary facts\<close>

subsection \<open>Uppercasing\<close>

lemma upper_char_idem: "upper_char (upper_char c) = upper_char c"
proof (cases "97 \<le> (of_char c :: nat) \<and> (of_char c :: nat) \<le> 122")
  case True
  define d where "d = char_of ((of_char c :: nat) - 32)"
  from True have "(of_char c :: nat) - 32 < 256" by arith
  then have "(of_char d :: nat) = of_char c - 32" by (simp add: d_def)
  with True have "\<not> (97 \<le> (of_char d :: nat) \<and> (of_char d :: nat) \<le> 122)" by arith
  then have "upper_char d = d" by (auto simp: upper_char_def Let_def)
  moreover from True have "upper_char c = d" by (simp add: upper_char_def Let_def d_def)
  ultimately show ?thesis by simp
next
  case False
  then have "upper_char c = c" by (auto simp: upper_char_def Let_def)
  then show ?thesis by simp
qed

lemma upper_idem: "upper (upper s) = upper s"
  by (simp add: upper_def upper_char_idem)

subsection \<open>The decoder\<close>

lemma keys_add_value:
  "map fst (add_value d (n, v)) = (if n \<in> fst ` set d then map fst d else map fst d @ [n])"
  by (auto simp: add_value_def update_keys map_of_eq_None_iff split: option.splits
      dest: weak_map_of_SomeI)

lemma map_of_add_value:
  "map_of (add_value d (n, v)) k =
     (if k = n then Some ((case map_of d n of Some vs \<Rightarrow> vs | None \<Rightarrow> []) @ [v])
      else map_of d k)"
  by (auto simp: add_value_def update_conv' map_add_def split: option.splits)

lemma distinct_add_value:
  "distinct (map fst d) \<Longrightarrow> distinct (map fst (add_value d nv))"
  by (cases nv) (auto simp: keys_add_value)

lemma distinct_foldl_add_value:
  "distinct (map fst d) \<Longrightarrow> distinct (map fst (foldl add_value d nvs))"
  by (induction nvs arbitrary: d) (auto simp: distinct_add_value)

lemma set_keys_foldl_add_value:
  "fst ` set (foldl add_value d nvs) = fst ` set d \<union> fst ` set nvs"
proof (induction nvs arbitrary: d)
  case Nil
  then show ?case by simp
next
  case (Cons nv nvs)
  obtain n v where nv: "nv = (n, v)" by (cases nv)
  have "fst ` set (add_value d (n, v)) = insert n (fst ` set d)"
    using keys_add_value [of d n v, THEN arg_cong, of set] by (auto split: if_splits)
  then show ?case
    by (simp add: Cons.IH nv)
qed

lemma map_of_foldl_add_value:
  "map_of (foldl add_value d nvs) k =
     (case map_of d k of
        Some vs \<Rightarrow> Some (vs @ values_of k nvs)
      | None \<Rightarrow> (if values_of k nvs = [] then None else Some (values_of k nvs)))"
proof (induction nvs arbitrary: d)
  case Nil
  then show ?case by (simp add: values_of_def split: option.splits)
next
  case (Cons nv nvs)
  obtain n v where nv: "nv = (n, v)" by (cases nv)
  show ?case
    by (auto simp: Cons.IH nv map_of_add_value values_of_def split: option.splits)
qed

lemma values_of_Nil_iff: "values_of k nvs = [] \<longleftrightarrow> k \<notin> fst ` set nvs"
  by (auto simp: values_of_def filter_empty_conv)

lemma distinct_parse_qs: "distinct (map fst (parse_qs q))"
  by (simp add: parse_qs_def distinct_foldl_add_value)

lemma set_keys_parse_qs: "fst ` set (parse_qs q) = fst ` set (parse_qsl q)"
  by (simp add: parse_qs_def set_keys_foldl_add_value)

lemma map_of_parse_qs:
  "map_of (parse_qs q) k =
     (if k \<in> fst ` set (parse_qsl q) then Some (values_of k (parse_qsl q)) else None)"
  by (simp add: parse_qs_def map_of_foldl_add_value values_of_Nil_iff)

lemma length_parse_qs: "length (parse_qs q) = length (remdups (map fst (parse_qsl q)))"
proof -
  have "length (parse_qs q) = length (map fst (parse_qs q))" by simp
  also have "\<dots> = card (set (map fst (parse_qs q)))"
    using distinct_parse_qs by (simp only: distinct_card)
  also have "\<dots> = card (set (map fst (parse_qsl q)))"
    by (simp add: set_keys_parse_qs)
  also have "\<dots> = length (remdups (map fst (parse_qsl q)))"
    by (simp only: length_remdups_card_conv)
  finally show ?thesis .
qed

subsection \<open>Construction and lookups\<close>

lemma items_of_Inr:
  "items_of r ks = Inr kvs \<Longrightarrow>
     map fst kvs = ks \<and> (\<forall>kv \<in> set kvs. getitem r (fst kv) = Inr (snd kv))"
  by (induction ks arbitrary: kvs) (auto split: sum.splits)

lemma items_of_Inr_iff:
  "(\<exists>kvs. items_of r ks = Inr kvs) \<longleftrightarrow> (\<forall>k \<in> set ks. \<exists>v. getitem r k = Inr v)"
  by (induction ks) (auto split: sum.splits)

lemma getitem_Inr_iff:
  "(\<exists>v. getitem r k = Inr v) \<longleftrightarrow> upper k \<in> fst ` set (raw r)"
  by (auto simp: getitem_def Let_def map_of_eq_None_iff split: option.splits
      dest!: map_of_SomeD intro: rev_image_eqI)

lemma init_Inr_iff:
  "init q c = Inr r \<longleftrightarrow>
     r = \<lparr>raw = parse_qs q, config = c\<rparr> \<and>
     (\<forall>k \<in> fst ` set (parse_qsl q). upper k \<in> fst ` set (parse_qsl q))"
proof -
  let ?r = "\<lparr>raw = parse_qs q, config = c\<rparr>"
  have "(\<exists>kvs. items ?r = Inr kvs) \<longleftrightarrow>
        (\<forall>k \<in> fst ` set (parse_qsl q). upper k \<in> fst ` set (parse_qsl q))"
    unfolding items_def iter_def items_of_Inr_iff getitem_Inr_iff
    by (simp add: set_keys_parse_qs)
  then show ?thesis
    by (auto simp: init_def str_def Let_def split: sum.splits)
qed

lemma getitem_Some:
  "map_of (raw r) (upper k) = Some vs \<Longrightarrow>
     getitem r k = Inr (if length vs = 1 then Str (vs ! 0) else List vs)"
  by (simp add: getitem_def Let_def)

lemma getitem_None:
  "map_of (raw r) (upper k) = None \<Longrightarrow> getitem r k = Inl (KeyError (upper k))"
  by (simp add: getitem_def Let_def)

lemma getattr_Some:
  "map_of (raw r) (upper k) = Some vs \<Longrightarrow>
     getattr r k = Inr (if length vs = 1 then Str (vs ! 0) else List vs)"
  by (simp add: getattr_def getitem_Some)

lemma getattr_None:
  "map_of (raw r) (upper k) = None \<Longrightarrow> getattr r k = Inl (AttributeError k)"
  by (simp add: getattr_def getitem_None)

lemma upper_ack: "upper ''ack'' = ''ACK''"
  by code_simp

lemma upper_success: "upper ''success'' = ''SUCCESS''"
  by code_simp

lemma success_single:
  "map_of (raw r) ''ACK'' = Some [v] \<Longrightarrow>
     success r = Inr (upper v = ACK_SUCCESS (config r) \<or>
                      upper v = ACK_SUCCESS_WITH_WARNING (config r))"
  by (simp add: success_def getattr_Some upper_ack)

lemma success_absent:
  "map_of (raw r) ''ACK'' = None \<Longrightarrow> success r = Inl (AttributeError ''ack'')"
  by (simp add: success_def getattr_None upper_ack)

lemma success_not_single:
  "map_of (raw r) ''ACK'' = Some vs \<Longrightarrow> length vs \<noteq> 1 \<Longrightarrow>
     success r = Inl (AttributeError list_has_no_upper)"
  by (simp add: success_def getattr_Some upper_ack)

lemma success_raises_AttributeError:
  "success r = Inl e \<Longrightarrow> \<exists>a. e = AttributeError a"
  by (auto simp: success_def getattr_def split: sum.splits error.splits pyvalue.splits)

lemma getattribute_success_Inr:
  "success r = Inr b \<Longrightarrow> getattribute base r ''success'' = Inr (Bool b)"
  by (simp add: getattribute_def)

lemma getattribute_success_Inl:
  "success r = Inl e \<Longrightarrow> getattribute base r ''success'' = getattr_hook r ''success''"
  by (auto simp: getattribute_def dest: success_raises_AttributeError)

lemma getattr_hook_not_Bool: "getattr_hook r name \<noteq> Inr (Bool b)"
  by (simp add: getattr_hook_def split: sum.splits)

lemma getattr_hook_None:
  "map_of (raw r) (upper name) = None \<Longrightarrow> getattr_hook r name = Inl (AttributeError name)"
  by (simp add: getattr_hook_def getattr_None)


lemma map_of_None_iff_keys: "map_of d k = None \<longleftrightarrow> k \<notin> fst ` set d"
  by (simp add: map_of_eq_None_iff)

lemma init_empty: "init [] c = Inr \<lparr>raw = [], config = c\<rparr>"
  by (simp add: init_def str_def items_def iter_def parse_qs_def parse_qsl_def parse_pair_def)

subsection \<open>Evaluations used by the examples\<close>

lemma upper_keys: "upper ''a'' = ''A''" "upper ''A'' = ''A''" "upper ''Ack'' = ''ACK''"
  "upper ''ACK'' = ''ACK''" "upper ''token'' = ''TOKEN''" "upper ''amt'' = ''AMT''"
  "upper ''Token'' = ''TOKEN''" "upper ''x'' = ''X''" "upper ''X'' = ''X''"
  "upper ''TOKEN'' = ''TOKEN''"
  by code_simp+


lemma init_mixed:
  "init ''a=1&A=2'' scenario_config =
     Inr \<lparr>raw = [(''a'', [''1'']), (''A'', [''2''])], config = scenario_config\<rparr>"
  by code_simp

lemma init_repeated:
  "init ''a=1&A=2&a=3'' scenario_config =
     Inr \<lparr>raw = [(''a'', [''1'', ''3'']), (''A'', [''2''])], config = scenario_config\<rparr>"
  by code_simp

lemma parse_qsl_repeated:
  "parse_qsl ''a=1&A=2&a=3'' = [(''a'', ''1''), (''A'', ''2''), (''a'', ''3'')]"
  by code_simp

lemma init_scenario1:
  "init ''ACK=Success&TOKEN=EC-123&AMT=10.00&AMT=20.00'' scenario_config =
     Inr \<lparr>raw = [(''ACK'', [''Success'']), (''TOKEN'', [''EC-123'']),
                 (''AMT'', [''10.00'', ''20.00''])], config = scenario_config\<rparr>"
  by code_simp

lemma parse_qsl_malformed: "parse_qsl ''&&=&garbage&TOKEN='' = []"
  by code_simp

lemma parse_qsl_upper: "parse_qsl ''TOKEN=EC-123'' = [(''TOKEN'', ''EC-123'')]"
  by code_simp

lemma items_scenario1:
  "items \<lparr>raw = [(''ACK'', [''Success'']), (''TOKEN'', [''EC-123'']),
                 (''AMT'', [''10.00'', ''20.00''])], config = scenario_config\<rparr> =
   Inr [(''ACK'', Str ''Success''), (''TOKEN'', Str ''EC-123''),
        (''AMT'', List [''10.00'', ''20.00''])]"
  by code_simp

lemma dict_scenario1:
  "dict [(''ACK'', Str ''Success''), (''TOKEN'', Str ''EC-123''),
        (''AMT'', List [''10.00'', ''20.00''])] =
   [(''ACK'', Str ''Success''), (''TOKEN'', Str ''EC-123''),
        (''AMT'', List [''10.00'', ''20.00''])]"
  by code_simp

lemma upper_values:
  "upper ''Failure'' = ''FAILURE''" "upper ''Success'' = ''SUCCESS''"
  by code_simp+

lemma init_scenario3:
  "init ''ACK=Failure&L_ERRORCODE0=10001'' scenario_config =
     Inr \<lparr>raw = [(''ACK'', [''Failure'']), (''L_ERRORCODE0'', [''10001''])],
          config = scenario_config\<rparr>"
  by code_simp

section \<open>The properties\<close>

subsection \<open>C1: the success check\<close>

text \<open>
  Claim C1, as the code has it. The dictionary keeps the names as they were decoded and
  the lookup asks for the uppercased name, so the check reads the entry stored under the
  uppercase name \<^verbatim>\<open>ACK\<close>. When that entry has exactly one value \<open>v\<close>, the getter of
  \<^verbatim>\<open>success\<close> returns whether \<open>upper v\<close> is one of the two tokens of the configuration,
  so any other value gives false and no error, and reading the attribute \<^verbatim>\<open>success\<close>
  gives that boolean. When there is no entry \<^verbatim>\<open>ACK\<close>, the getter raises
  \<^verbatim>\<open>AttributeError('ack')\<close>; reading the attribute never gives a boolean then, and
  raises \<^verbatim>\<open>AttributeError('success')\<close> unless the response has a field
  \<^verbatim>\<open>SUCCESS\<close>, because Python hands the getter's error to \<^verbatim>\<open>__getattr__\<close>.
\<close>

theorem success_of_uppercase_ACK:
  "(map_of (raw r) ''ACK'' = Some [v] \<longrightarrow>
      success r = Inr (upper v = ACK_SUCCESS (config r) \<or>
                       upper v = ACK_SUCCESS_WITH_WARNING (config r)) \<and>
      getattribute base r ''success'' =
        Inr (Bool (upper v = ACK_SUCCESS (config r) \<or>
                   upper v = ACK_SUCCESS_WITH_WARNING (config r)))) \<and>
   (map_of (raw r) ''ACK'' = None \<longrightarrow>
      success r = Inl (AttributeError ''ack'') \<and>
      (\<forall>b. getattribute base r ''success'' \<noteq> Inr (Bool b)) \<and>
      (map_of (raw r) ''SUCCESS'' = None \<longrightarrow>
         getattribute base r ''success'' = Inl (AttributeError ''success'')))"
proof (intro conjI impI allI)
  assume a: "map_of (raw r) ''ACK'' = Some [v]"
  show s: "success r = Inr (upper v = ACK_SUCCESS (config r) \<or>
                       upper v = ACK_SUCCESS_WITH_WARNING (config r))"
    using a by (rule success_single)
  show "getattribute base r ''success'' =
        Inr (Bool (upper v = ACK_SUCCESS (config r) \<or>
                   upper v = ACK_SUCCESS_WITH_WARNING (config r)))"
    using s by (rule getattribute_success_Inr)
next
  assume a: "map_of (raw r) ''ACK'' = None"
  show s: "success r = Inl (AttributeError ''ack'')"
    using a by (rule success_absent)
  have h: "getattribute base r ''success'' = getattr_hook r ''success''"
    using s by (rule getattribute_success_Inl)
  show "getattribute base r ''success'' \<noteq> Inr (Bool b)" for b
    by (simp add: h getattr_hook_not_Bool)
  show "getattribute base r ''success'' = Inl (AttributeError ''success'')"
    if "map_of (raw r) ''SUCCESS'' = None"
    using that by (simp add: h getattr_hook_None upper_success)
qed

text \<open>
  The theorem at the scenario with the name spelled \<^verbatim>\<open>ACK\<close>, at a successful
  response, and at the empty response.
\<close>

theorem success_of_uppercase_ACK_witness:
  "init ''ACK=Failure&L_ERRORCODE0=10001'' scenario_config =
     Inr \<lparr>raw = [(''ACK'', [''Failure'']), (''L_ERRORCODE0'', [''10001''])],
          config = scenario_config\<rparr> \<and>
   success \<lparr>raw = [(''ACK'', [''Failure'']), (''L_ERRORCODE0'', [''10001''])],
            config = scenario_config\<rparr> = Inr False \<and>
   success \<lparr>raw = [(''ACK'', [''Success''])], config = scenario_config\<rparr> = Inr True \<and>
   success \<lparr>raw = [], config = scenario_config\<rparr> = Inl (AttributeError ''ack'') \<and>
   getattribute [] \<lparr>raw = [], config = scenario_config\<rparr> ''success''
     = Inl (AttributeError ''success'')"
  using success_of_uppercase_ACK
          [of "\<lparr>raw = [(''ACK'', [''Failure'']), (''L_ERRORCODE0'', [''10001''])],
                 config = scenario_config\<rparr>" "''Failure''" "[]"]
        success_of_uppercase_ACK
          [of "\<lparr>raw = [(''ACK'', [''Success''])], config = scenario_config\<rparr>" "''Success''" "[]"]
        success_of_uppercase_ACK [of "\<lparr>raw = [], config = scenario_config\<rparr>" "[]" "[]"]
        init_scenario3
  by (simp add: scenario_config_def upper_values)

text \<open>
  With the name spelled \<^verbatim>\<open>ack\<close>, as the scenario of C1 has it, the entry is stored
  under \<^verbatim>\<open>ack\<close> and never found: the constructor already raises while it renders the
  log message, and on a record holding that dictionary the check raises instead of
  returning false.
\<close>

theorem lowercase_ack_counterexample:
  "init ''ack=Failure&L_ERRORCODE0=10001'' scenario_config = Inl (KeyError ''ACK'') \<and>
   success \<lparr>raw = parse_qs ''ack=Failure&L_ERRORCODE0=10001'', config = scenario_config\<rparr>
     = Inl (AttributeError ''ack'')"
  by code_simp

subsection \<open>C2: the case of stored and requested names\<close>

text \<open>
  Claim C2, as the code has it. The constructor stores the dictionary of the decoder
  unchanged, so the stored names are the decoded names in the case they were sent in.
  \<^verbatim>\<open>__getitem__\<close> and \<^verbatim>\<open>__getattr__\<close> uppercase the requested name before the
  lookup: a field stored under an all-uppercase name \<open>K\<close> is returned for every
  spelling \<open>k\<close> of it, and a stored name that is not all uppercase is never the name a
  lookup asks for.
\<close>

theorem lookup_uppercases_requested_key:
  "(init q c = Inr r \<longrightarrow> raw r = parse_qs q \<and> fst ` set (raw r) = fst ` set (parse_qsl q)) \<and>
   (map_of (raw r) K = Some vs \<and> upper K = K \<and> upper k = K \<longrightarrow>
      getitem r k = Inr (if length vs = 1 then Str (vs ! 0) else List vs) \<and>
      getattr r k = Inr (if length vs = 1 then Str (vs ! 0) else List vs)) \<and>
   (upper K \<noteq> K \<longrightarrow> (\<forall>k'. upper k' \<noteq> K))"
proof (intro conjI impI allI)
  assume "init q c = Inr r"
  then have "r = \<lparr>raw = parse_qs q, config = c\<rparr>" by (simp add: init_Inr_iff)
  then show "raw r = parse_qs q" by simp
  then show "fst ` set (raw r) = fst ` set (parse_qsl q)" by (simp add: set_keys_parse_qs)
next
  assume a: "map_of (raw r) K = Some vs \<and> upper K = K \<and> upper k = K"
  then have "map_of (raw r) (upper k) = Some vs" by simp
  then show "getitem r k = Inr (if length vs = 1 then Str (vs ! 0) else List vs)"
    and "getattr r k = Inr (if length vs = 1 then Str (vs ! 0) else List vs)"
    by (rule getitem_Some, rule getattr_Some)
next
  fix k'
  assume "upper K \<noteq> K"
  then show "upper k' \<noteq> K" using upper_idem [of k'] by auto
qed

text \<open>
  The theorem at the query string \<^verbatim>\<open>a=1&A=2\<close>: the entry \<^verbatim>\<open>A\<close> answers the request
  for \<^verbatim>\<open>a\<close>, and no request reaches the entry \<^verbatim>\<open>a\<close>.
\<close>

theorem lookup_uppercases_requested_key_witness:
  "init ''a=1&A=2'' scenario_config =
     Inr \<lparr>raw = [(''a'', [''1'']), (''A'', [''2''])], config = scenario_config\<rparr> \<and>
   parse_qs ''a=1&A=2'' = [(''a'', [''1'']), (''A'', [''2''])] \<and>
   getitem \<lparr>raw = [(''a'', [''1'']), (''A'', [''2''])], config = scenario_config\<rparr> ''a''
     = Inr (Str ''2'') \<and>
   getattr \<lparr>raw = [(''a'', [''1'']), (''A'', [''2''])], config = scenario_config\<rparr> ''a''
     = Inr (Str ''2'') \<and>
   (\<forall>k'. upper k' \<noteq> ''a'')"
proof -
  let ?r = "\<lparr>raw = [(''a'', [''1'']), (''A'', [''2''])], config = scenario_config\<rparr>"
  have i: "init ''a=1&A=2'' scenario_config = Inr ?r" by (rule init_mixed)
  have h: "map_of (raw ?r) ''A'' = Some [''2''] \<and> upper ''A'' = ''A'' \<and> upper ''a'' = ''A''"
    by (simp add: upper_keys)
  have n: "upper ''a'' \<noteq> ''a''" by (simp add: upper_keys)
  note t = lookup_uppercases_requested_key
             [of "''a=1&A=2''" scenario_config ?r "''A''" "[''2'']" "''a''"]
  note u = lookup_uppercases_requested_key
             [of "''a=1&A=2''" scenario_config ?r "''a''" "[''2'']" "''a''"]
  from t i have "raw ?r = parse_qs ''a=1&A=2''" by blast
  then have p: "parse_qs ''a=1&A=2'' = [(''a'', [''1'']), (''A'', [''2''])]" by simp
  from t h have "getitem ?r ''a'' = Inr (if length [''2''] = 1 then Str ([''2''] ! 0) else List [''2'']) \<and>
      getattr ?r ''a'' = Inr (if length [''2''] = 1 then Str ([''2''] ! 0) else List [''2''])"
    by blast
  then have g: "getitem ?r ''a'' = Inr (Str ''2'') \<and> getattr ?r ''a'' = Inr (Str ''2'')"
    by simp
  from u n have "\<forall>k'. upper k' \<noteq> ''a''" by blast
  with i p g show ?thesis by blast
qed

text \<open>
  Against C2 as stated: for \<^verbatim>\<open>a=1&A=2\<close> the record is constructed, its names are
  \<^verbatim>\<open>a\<close> and \<^verbatim>\<open>A\<close>, the first is not in uppercase form, and the value \<^verbatim>\<open>1\<close> sent
  under \<^verbatim>\<open>a\<close> is not what the lookup of \<^verbatim>\<open>a\<close> returns.
\<close>

theorem raw_keys_not_uppercased_counterexample:
  "init ''a=1&A=2'' scenario_config =
     Inr \<lparr>raw = [(''a'', [''1'']), (''A'', [''2''])], config = scenario_config\<rparr> \<and>
   iter \<lparr>raw = [(''a'', [''1'']), (''A'', [''2''])], config = scenario_config\<rparr> = [''a'', ''A''] \<and>
   upper ''a'' \<noteq> ''a'' \<and>
   getitem \<lparr>raw = [(''a'', [''1'']), (''A'', [''2''])], config = scenario_config\<rparr> ''a''
     = Inr (Str ''2'') \<and>
   getitem \<lparr>raw = [(''a'', [''1'']), (''A'', [''2''])], config = scenario_config\<rparr> ''a''
     \<noteq> Inr (Str ''1'')"
  by code_simp

subsection \<open>C3: the size\<close>

text \<open>
  Claim C3, as the code has it. For a record constructed from \<open>q\<close>, \<^verbatim>\<open>__len__\<close> is
  the number of distinct names among the decoded pairs, compared as they were decoded;
  the entry of a name holds all the values decoded for exactly that name, in decoding
  order. Names that differ only by case are separate entries, and the size counts names,
  not values.
\<close>

theorem len_counts_names_as_decoded:
  "init q c = Inr r \<Longrightarrow>
     len r = length (remdups (map fst (parse_qsl q))) \<and>
     (\<forall>name. map_of (raw r) name =
        (if name \<in> fst ` set (parse_qsl q) then Some (values_of name (parse_qsl q)) else None))"
proof -
  assume "init q c = Inr r"
  then have r: "r = \<lparr>raw = parse_qs q, config = c\<rparr>" by (simp add: init_Inr_iff)
  have "len r = length (remdups (map fst (parse_qsl q)))"
    by (simp add: r len_def length_parse_qs)
  moreover have "map_of (raw r) name =
        (if name \<in> fst ` set (parse_qsl q) then Some (values_of name (parse_qsl q)) else None)"
    for name
    by (simp add: r map_of_parse_qs)
  ultimately show ?thesis by blast
qed

text \<open>
  The theorem at \<^verbatim>\<open>a=1&A=2&a=3\<close>: two entries, and the two values of \<^verbatim>\<open>a\<close> in
  order.
\<close>

theorem len_counts_names_as_decoded_witness:
  "init ''a=1&A=2&a=3'' scenario_config =
     Inr \<lparr>raw = [(''a'', [''1'', ''3'']), (''A'', [''2''])], config = scenario_config\<rparr> \<and>
   len \<lparr>raw = [(''a'', [''1'', ''3'']), (''A'', [''2''])], config = scenario_config\<rparr> = 2 \<and>
   values_of ''a'' (parse_qsl ''a=1&A=2&a=3'') = [''1'', ''3'']"
  using len_counts_names_as_decoded [OF init_repeated] init_repeated
  by (simp add: parse_qsl_repeated values_of_def)

text \<open>
  Against C3 as stated: \<^verbatim>\<open>x=1&X=2\<close> has one field name when case is ignored, and
  the record has size two.
\<close>

theorem size_case_sensitive_counterexample:
  "init ''x=1&X=2'' scenario_config =
     Inr \<lparr>raw = [(''x'', [''1'']), (''X'', [''2''])], config = scenario_config\<rparr> \<and>
   len \<lparr>raw = [(''x'', [''1'']), (''X'', [''2''])], config = scenario_config\<rparr> = 2 \<and>
   spec_size ''x=1&X=2'' = 1"
  by code_simp

subsection \<open>C4: a single value is returned as a scalar\<close>

text \<open>
  Claim C4, as the code has it. The lookup of \<open>k\<close> reads the entry stored under
  \<open>upper k\<close>, which is the entry of the field \<open>k\<close> when the field was sent under its
  uppercase name. If that entry is the one-element list \<open>[v]\<close>, \<^verbatim>\<open>__getitem__\<close>
  returns the string \<open>v\<close>; if it has more than one element, it returns the whole list.
  The lookup returns a value and leaves the record as it is: the dictionary of a
  constructed record is the decoder's, with every entry a list, and the list of a name
  holds the values decoded for it in decoding order.
\<close>

theorem getitem_collapses_single_value:
  assumes "map_of (raw r) (upper k) = Some vs"
  shows "(\<forall>v. vs = [v] \<longrightarrow> getitem r k = Inr (Str v)) \<and>
         (1 < length vs \<longrightarrow> getitem r k = Inr (List vs)) \<and>
         (init q c = Inr r \<longrightarrow>
            raw r = parse_qs q \<and> vs = values_of (upper k) (parse_qsl q))"
proof (intro conjI impI allI)
  show "getitem r k = Inr (Str v)" if "vs = [v]" for v
    using assms that by (simp add: getitem_Some)
  show "getitem r k = Inr (List vs)" if "1 < length vs"
    using assms that by (simp add: getitem_Some)
  assume "init q c = Inr r"
  then have r: "r = \<lparr>raw = parse_qs q, config = c\<rparr>" by (simp add: init_Inr_iff)
  then show "raw r = parse_qs q" by simp
  with assms have "map_of (parse_qs q) (upper k) = Some vs" by simp
  then show "vs = values_of (upper k) (parse_qsl q)"
    by (simp add: map_of_parse_qs split: if_splits)
qed

text \<open>
  The theorem at the response \<^verbatim>\<open>ACK=Success&TOKEN=EC-123&AMT=10.00&AMT=20.00\<close>.
\<close>

theorem getitem_collapses_single_value_witness:
  "getitem \<lparr>raw = [(''ACK'', [''Success'']), (''TOKEN'', [''EC-123'']),
                 (''AMT'', [''10.00'', ''20.00''])], config = scenario_config\<rparr> ''token''
     = Inr (Str ''EC-123'') \<and>
   getitem \<lparr>raw = [(''ACK'', [''Success'']), (''TOKEN'', [''EC-123'']),
                 (''AMT'', [''10.00'', ''20.00''])], config = scenario_config\<rparr> ''amt''
     = Inr (List [''10.00'', ''20.00'']) \<and>
   parse_qs ''ACK=Success&TOKEN=EC-123&AMT=10.00&AMT=20.00''
     = [(''ACK'', [''Success'']), (''TOKEN'', [''EC-123'']), (''AMT'', [''10.00'', ''20.00''])]"
proof -
  let ?q = "''ACK=Success&TOKEN=EC-123&AMT=10.00&AMT=20.00''"
  let ?r = "\<lparr>raw = [(''ACK'', [''Success'']), (''TOKEN'', [''EC-123'']),
                 (''AMT'', [''10.00'', ''20.00''])], config = scenario_config\<rparr>"
  have i: "init ?q scenario_config = Inr ?r" by (rule init_scenario1)
  have h1: "map_of (raw ?r) (upper ''token'') = Some [''EC-123'']"
    by (simp add: upper_keys)
  have h2: "map_of (raw ?r) (upper ''amt'') = Some [''10.00'', ''20.00'']"
    by (simp add: upper_keys)
  note t1 = getitem_collapses_single_value [OF h1, of ?q scenario_config]
  note t2 = getitem_collapses_single_value [OF h2, of ?q scenario_config]
  from t1 have "getitem ?r ''token'' = Inr (Str ''EC-123'')" by blast
  moreover from t2 have "getitem ?r ''amt'' = Inr (List [''10.00'', ''20.00''])" by simp
  moreover from t1 i have "raw ?r = parse_qs ?q" by blast
  then have "parse_qs ?q =
      [(''ACK'', [''Success'']), (''TOKEN'', [''EC-123'']), (''AMT'', [''10.00'', ''20.00''])]"
    by simp
  ultimately show ?thesis by blast
qed

text \<open>
  Against C4 as stated, for fields sent under a lowercase name. In
  \<^verbatim>\<open>token=a&TOKEN=b&TOKEN=c\<close> the field \<^verbatim>\<open>token\<close> has exactly one value, and its
  lookup returns the list of the two values of \<^verbatim>\<open>TOKEN\<close>. In
  \<^verbatim>\<open>amt=10.00&amt=20.00&AMT=5\<close> the field \<^verbatim>\<open>amt\<close> has two values, and its lookup
  returns the single value of \<^verbatim>\<open>AMT\<close> as a string.
\<close>

theorem lowercase_field_not_collapsed_counterexample:
  "init ''token=a&TOKEN=b&TOKEN=c'' scenario_config =
     Inr \<lparr>raw = [(''token'', [''a'']), (''TOKEN'', [''b'', ''c''])],
          config = scenario_config\<rparr> \<and>
   map_of [(''token'', [''a'']), (''TOKEN'', [''b'', ''c''])] ''token'' = Some [''a''] \<and>
   getitem \<lparr>raw = [(''token'', [''a'']), (''TOKEN'', [''b'', ''c''])],
            config = scenario_config\<rparr> ''token'' = Inr (List [''b'', ''c'']) \<and>
   init ''amt=10.00&amt=20.00&AMT=5'' scenario_config =
     Inr \<lparr>raw = [(''amt'', [''10.00'', ''20.00'']), (''AMT'', [''5''])],
          config = scenario_config\<rparr> \<and>
   map_of [(''amt'', [''10.00'', ''20.00'']), (''AMT'', [''5''])] ''amt''
     = Some [''10.00'', ''20.00''] \<and>
   getitem \<lparr>raw = [(''amt'', [''10.00'', ''20.00'']), (''AMT'', [''5''])],
            config = scenario_config\<rparr> ''amt'' = Inr (Str ''5'')"
  by code_simp

subsection \<open>C5: the case of the requested name does not matter\<close>

text \<open>
  Claim C5. Two requested names with the same uppercase form give the same result of
  \<^verbatim>\<open>__getitem__\<close>, value or error. \<^verbatim>\<open>__getattr__\<close> returns the same value for both,
  or fails for both, each error carrying the name as it was requested.
\<close>

theorem lookup_ignores_case_of_requested_key:
  assumes "upper k1 = upper k2"
  shows "getitem r k1 = getitem r k2 \<and>
         (case getattr r k1 of
            Inr v \<Rightarrow> getattr r k2 = Inr v
          | Inl e \<Rightarrow> e = AttributeError k1 \<and> getattr r k2 = Inl (AttributeError k2))"
proof -
  have g: "getitem r k1 = getitem r k2"
    using assms by (simp add: getitem_def)
  show ?thesis
  proof (cases "map_of (raw r) (upper k2)")
    case None
    with assms have "map_of (raw r) (upper k1) = None" by simp
    with None show ?thesis by (simp add: g getattr_None)
  next
    case (Some vs)
    with assms have "map_of (raw r) (upper k1) = Some vs" by simp
    with Some show ?thesis by (simp add: g getattr_Some)
  qed
qed

text \<open>
  The theorem at the spellings \<^verbatim>\<open>ack\<close>, \<^verbatim>\<open>Ack\<close> and \<^verbatim>\<open>ACK\<close>, on a response
  that has the field and on one that has not.
\<close>

theorem lookup_ignores_case_of_requested_key_witness:
  "getitem \<lparr>raw = [(''ACK'', [''Success''])], config = scenario_config\<rparr> ''ack'' =
   getitem \<lparr>raw = [(''ACK'', [''Success''])], config = scenario_config\<rparr> ''Ack'' \<and>
   getitem \<lparr>raw = [(''ACK'', [''Success''])], config = scenario_config\<rparr> ''Ack'' =
   getitem \<lparr>raw = [(''ACK'', [''Success''])], config = scenario_config\<rparr> ''ACK'' \<and>
   getitem \<lparr>raw = [(''ACK'', [''Success''])], config = scenario_config\<rparr> ''ACK'' =
     Inr (Str ''Success'') \<and>
   getattr \<lparr>raw = [], config = scenario_config\<rparr> ''ack'' = Inl (AttributeError ''ack'') \<and>
   getattr \<lparr>raw = [], config = scenario_config\<rparr> ''Ack'' = Inl (AttributeError ''Ack'')"
proof -
  let ?r = "\<lparr>raw = [(''ACK'', [''Success''])], config = scenario_config\<rparr>"
  let ?e = "\<lparr>raw = [], config = scenario_config\<rparr>"
  have h1: "upper ''ack'' = upper ''Ack''" by (simp add: upper_ack upper_keys)
  have h2: "upper ''Ack'' = upper ''ACK''" by (simp add: upper_keys)
  have v: "getitem ?r ''ACK'' = Inr (Str ''Success'')"
    by (simp add: getitem_Some upper_keys)
  have a: "getattr ?e ''ack'' = Inl (AttributeError ''ack'')"
    by (simp add: getattr_None)
  from lookup_ignores_case_of_requested_key [OF h1, of ?r]
  have "getitem ?r ''ack'' = getitem ?r ''Ack''" by blast
  moreover from lookup_ignores_case_of_requested_key [OF h2, of ?r]
  have "getitem ?r ''Ack'' = getitem ?r ''ACK''" by blast
  moreover from lookup_ignores_case_of_requested_key [OF h1, of ?e] a
  have "getattr ?e ''Ack'' = Inl (AttributeError ''Ack'')" by simp
  ultimately show ?thesis using v a by blast
qed

subsection \<open>C6: the errors of an absent field\<close>

text \<open>
  Claim C6. When the uppercase form of the requested name is not a name of the
  dictionary, \<^verbatim>\<open>__getitem__\<close> raises \<^verbatim>\<open>KeyError\<close>, and \<^verbatim>\<open>__getattr__\<close> turns it
  into \<^verbatim>\<open>AttributeError\<close> carrying the name exactly as it was given.
\<close>

theorem absent_field_raises:
  assumes "upper k \<notin> fst ` set (raw r)"
  shows "getitem r k = Inl (KeyError (upper k)) \<and> getattr r k = Inl (AttributeError k)"
proof -
  from assms have "map_of (raw r) (upper k) = None" by (simp add: map_of_None_iff_keys)
  then show ?thesis by (simp add: getitem_None getattr_None)
qed

text \<open>
  The theorem at the request for \<^verbatim>\<open>Token\<close> on a response without that field.
\<close>

theorem absent_field_raises_witness:
  "getitem \<lparr>raw = [(''ACK'', [''Success''])], config = scenario_config\<rparr> ''Token''
     = Inl (KeyError ''TOKEN'') \<and>
   getattr \<lparr>raw = [(''ACK'', [''Success''])], config = scenario_config\<rparr> ''Token''
     = Inl (AttributeError ''Token'')"
  using absent_field_raises
          [of "''Token''" "\<lparr>raw = [(''ACK'', [''Success''])], config = scenario_config\<rparr>"]
  by (simp add: upper_keys)

subsection \<open>C7: construction\<close>

text \<open>
  Claim C7, as the code has it. The constructor renders the record for its log message,
  and the rendering looks every stored name up through \<^verbatim>\<open>__getitem__\<close>. Construction
  therefore succeeds exactly when the uppercase form of every decoded name is a decoded
  name too, which holds when all names are uppercase and when nothing is decoded; the
  record then holds the decoder's dictionary. For the empty string the record is empty:
  its size is 0, every \<^verbatim>\<open>__getitem__\<close> raises \<^verbatim>\<open>KeyError\<close>, every \<^verbatim>\<open>__getattr__\<close>
  raises \<^verbatim>\<open>AttributeError\<close> with the requested name, the getter of \<^verbatim>\<open>success\<close>
  raises \<^verbatim>\<open>AttributeError('ack')\<close>, and reading the attribute \<^verbatim>\<open>success\<close> raises
  \<^verbatim>\<open>AttributeError('success')\<close>.
\<close>

theorem init_fails_on_unmatched_lowercase_name:
  "((\<exists>r. init q c = Inr r) \<longleftrightarrow>
      (\<forall>k \<in> fst ` set (parse_qsl q). upper k \<in> fst ` set (parse_qsl q))) \<and>
   (init q c = Inr r \<longrightarrow> r = \<lparr>raw = parse_qs q, config = c\<rparr>) \<and>
   init '''' c = Inr \<lparr>raw = [], config = c\<rparr> \<and>
   len \<lparr>raw = [], config = c\<rparr> = 0 \<and>
   getitem \<lparr>raw = [], config = c\<rparr> k = Inl (KeyError (upper k)) \<and>
   getattr \<lparr>raw = [], config = c\<rparr> k = Inl (AttributeError k) \<and>
   success \<lparr>raw = [], config = c\<rparr> = Inl (AttributeError ''ack'') \<and>
   getattribute base \<lparr>raw = [], config = c\<rparr> ''success'' = Inl (AttributeError ''success'')"
proof (intro conjI impI)
  show "(\<exists>r. init q c = Inr r) \<longleftrightarrow>
      (\<forall>k \<in> fst ` set (parse_qsl q). upper k \<in> fst ` set (parse_qsl q))"
    by (simp add: init_Inr_iff)
  show "r = \<lparr>raw = parse_qs q, config = c\<rparr>" if "init q c = Inr r"
    using that by (simp add: init_Inr_iff)
  show "init '''' c = Inr \<lparr>raw = [], config = c\<rparr>" by (rule init_empty)
  show "len \<lparr>raw = [], config = c\<rparr> = 0" by (simp add: len_def)
  show "getitem \<lparr>raw = [], config = c\<rparr> k = Inl (KeyError (upper k))"
    by (simp add: getitem_None)
  show "getattr \<lparr>raw = [], config = c\<rparr> k = Inl (AttributeError k)"
    by (simp add: getattr_None)
  show s: "success \<lparr>raw = [], config = c\<rparr> = Inl (AttributeError ''ack'')"
    by (simp add: success_absent)
  show "getattribute base \<lparr>raw = [], config = c\<rparr> ''success'' = Inl (AttributeError ''success'')"
    by (simp add: getattribute_success_Inl [OF s] getattr_hook_None)
qed

text \<open>
  The theorem at a malformed query string, which decodes to nothing, and at a response
  with an uppercase name.
\<close>

theorem init_fails_on_unmatched_lowercase_name_witness:
  "(\<exists>r. init ''&&=&garbage&TOKEN='' scenario_config = Inr r) \<and>
   init ''TOKEN=EC-123'' scenario_config =
     Inr \<lparr>raw = parse_qs ''TOKEN=EC-123'', config = scenario_config\<rparr>"
proof -
  note t = init_fails_on_unmatched_lowercase_name [of "''&&=&garbage&TOKEN=''" scenario_config]
  have "\<forall>k \<in> fst ` set (parse_qsl ''&&=&garbage&TOKEN=''). 
          upper k \<in> fst ` set (parse_qsl ''&&=&garbage&TOKEN='')"
    by (simp add: parse_qsl_malformed)
  with t have a: "\<exists>r. init ''&&=&garbage&TOKEN='' scenario_config = Inr r" by blast
  have "\<forall>k \<in> fst ` set (parse_qsl ''TOKEN=EC-123''). 
          upper k \<in> fst ` set (parse_qsl ''TOKEN=EC-123'')"
    by (simp add: parse_qsl_upper upper_keys)
  with init_fails_on_unmatched_lowercase_name [of "''TOKEN=EC-123''" scenario_config]
  obtain r where r: "init ''TOKEN=EC-123'' scenario_config = Inr r" by blast
  with init_fails_on_unmatched_lowercase_name [of "''TOKEN=EC-123''" scenario_config r]
  have "r = \<lparr>raw = parse_qs ''TOKEN=EC-123'', config = scenario_config\<rparr>" by blast
  with r a show ?thesis by blast
qed

text \<open>
  Against C7 as stated: with a name in lowercase the constructor raises.
\<close>

theorem init_raises_counterexample:
  "init ''token=EC-123'' scenario_config = Inl (KeyError ''TOKEN'')"
  by code_simp

subsection \<open>C8: the two renderings\<close>

text \<open>
  Claim C8. \<^verbatim>\<open>formatted\<close> and \<^verbatim>\<open>__str__\<close> give the same result, text or error. Both
  are functions of the record, which no operation changes, so a second call gives the
  first call's result. The text is the pretty-printer's rendering of the dictionary
  that pairs every stored name, in order, with what \<^verbatim>\<open>__getitem__\<close> returns for it.
\<close>

theorem formatted_is_str:
  "formatted r = str r \<and>
   (items r = Inr kvs \<longrightarrow>
      str r = Inr (Pformat (dict kvs)) \<and> map fst kvs = iter r \<and>
      (\<forall>kv \<in> set kvs. getitem r (fst kv) = Inr (snd kv)))"
proof (intro conjI impI)
  show "formatted r = str r" by (simp add: formatted_def str_def)
next
  assume a: "items r = Inr kvs"
  then show "str r = Inr (Pformat (dict kvs))" by (simp add: str_def)
  from a have "items_of r (iter r) = Inr kvs" by (simp add: items_def)
  from items_of_Inr [OF this]
  show "map fst kvs = iter r" and "\<forall>kv \<in> set kvs. getitem r (fst kv) = Inr (snd kv)"
    by blast+
qed

text \<open>
  The theorem at the response \<^verbatim>\<open>ACK=Success&TOKEN=EC-123&AMT=10.00&AMT=20.00\<close>.
\<close>

theorem formatted_is_str_witness:
  "formatted \<lparr>raw = [(''ACK'', [''Success'']), (''TOKEN'', [''EC-123'']),
                 (''AMT'', [''10.00'', ''20.00''])], config = scenario_config\<rparr> =
     Inr (Pformat [(''ACK'', Str ''Success''), (''TOKEN'', Str ''EC-123''),
        (''AMT'', List [''10.00'', ''20.00''])]) \<and>
   getitem \<lparr>raw = [(''ACK'', [''Success'']), (''TOKEN'', [''EC-123'']),
                 (''AMT'', [''10.00'', ''20.00''])], config = scenario_config\<rparr> ''AMT'' =
     Inr (List [''10.00'', ''20.00''])"
  using formatted_is_str
          [of "\<lparr>raw = [(''ACK'', [''Success'']), (''TOKEN'', [''EC-123'']),
                 (''AMT'', [''10.00'', ''20.00''])], config = scenario_config\<rparr>"
              "[(''ACK'', Str ''Success''), (''TOKEN'', Str ''EC-123''),
                (''AMT'', List [''10.00'', ''20.00''])]"]
        items_scenario1
  by (simp add: dict_scenario1)

subsection \<open>C9: a repeated ACK\<close>

text \<open>
  Claim C9, as the code has it. When the entry \<^verbatim>\<open>ACK\<close> does not have exactly one
  value, the lookup returns the list, and \<^verbatim>\<open>.upper()\<close> on a list raises
  \<^verbatim>\<open>AttributeError\<close> in the getter of \<^verbatim>\<open>success\<close>: no boolean is returned. That is the
  exception class of a missing attribute, so reading the attribute \<^verbatim>\<open>success\<close> gives
  what \<^verbatim>\<open>__getattr__('success')\<close> gives: \<^verbatim>\<open>AttributeError('success')\<close> when the
  response has no field \<^verbatim>\<open>SUCCESS\<close>. With exactly one value the getter returns a
  boolean.
\<close>

theorem success_of_multivalued_ACK:
  "(map_of (raw r) ''ACK'' = Some vs \<and> length vs \<noteq> 1 \<longrightarrow>
      success r = Inl (AttributeError list_has_no_upper) \<and>
      (\<forall>b. getattribute base r ''success'' \<noteq> Inr (Bool b)) \<and>
      getattribute base r ''success'' = getattr_hook r ''success'' \<and>
      (map_of (raw r) ''SUCCESS'' = None \<longrightarrow>
         getattribute base r ''success'' = Inl (AttributeError ''success''))) \<and>
   (map_of (raw r) ''ACK'' = Some [v] \<longrightarrow> (\<exists>b. success r = Inr b))"
proof (intro conjI impI allI)
  assume a: "map_of (raw r) ''ACK'' = Some vs \<and> length vs \<noteq> 1"
  then show s: "success r = Inl (AttributeError list_has_no_upper)"
    by (simp add: success_not_single)
  show h: "getattribute base r ''success'' = getattr_hook r ''success''"
    using s by (rule getattribute_success_Inl)
  show "getattribute base r ''success'' \<noteq> Inr (Bool b)" for b
    by (simp add: h getattr_hook_not_Bool)
  show "getattribute base r ''success'' = Inl (AttributeError ''success'')"
    if "map_of (raw r) ''SUCCESS'' = None"
    using that by (simp add: h getattr_hook_None upper_success)
next
  assume "map_of (raw r) ''ACK'' = Some [v]"
  then show "\<exists>b. success r = Inr b" by (simp add: success_single)
qed

text \<open>
  The theorem at a response with two values of \<^verbatim>\<open>ACK\<close> and at one with a single
  value.
\<close>

theorem success_of_multivalued_ACK_witness:
  "success \<lparr>raw = [(''ACK'', [''Success'', ''Warning''])], config = scenario_config\<rparr>
     = Inl (AttributeError list_has_no_upper) \<and>
   getattribute [] \<lparr>raw = [(''ACK'', [''Success'', ''Warning''])], config = scenario_config\<rparr>
     ''success'' = Inl (AttributeError ''success'') \<and>
   (\<exists>b. success \<lparr>raw = [(''ACK'', [''Success''])], config = scenario_config\<rparr> = Inr b)"
proof -
  let ?r = "\<lparr>raw = [(''ACK'', [''Success'', ''Warning''])], config = scenario_config\<rparr>"
  let ?s = "\<lparr>raw = [(''ACK'', [''Success''])], config = scenario_config\<rparr>"
  have h: "map_of (raw ?r) ''ACK'' = Some [''Success'', ''Warning''] \<and>
           length [''Success'', ''Warning''] \<noteq> 1" by simp
  have n: "map_of (raw ?r) ''SUCCESS'' = None" by simp
  have o: "map_of (raw ?s) ''ACK'' = Some [''Success'']" by simp
  note t = success_of_multivalued_ACK [of ?r "[''Success'', ''Warning'']" "[]"]
  from t h have "success ?r = Inl (AttributeError list_has_no_upper)" by blast
  moreover from t h n
  have "getattribute [] ?r ''success'' = Inl (AttributeError ''success'')" by blast
  moreover from success_of_multivalued_ACK [of ?s _ _ "''Success''"] o
  have "\<exists>b. success ?s = Inr b" by blast
  ultimately show ?thesis by blast
qed

text \<open>
  Against C9 as stated: for \<^verbatim>\<open>ACK=Success&ACK=Success\<close> the record is constructed,
  and reading \<^verbatim>\<open>success\<close> raises the very error that \<^verbatim>\<open>__getattr__\<close> raises for a
  missing field named \<^verbatim>\<open>success\<close>; the error inside the getter is an
  \<^verbatim>\<open>AttributeError\<close> as well.
\<close>

theorem multivalued_ACK_counterexample:
  "init ''ACK=Success&ACK=Success'' scenario_config =
     Inr \<lparr>raw = [(''ACK'', [''Success'', ''Success''])], config = scenario_config\<rparr> \<and>
   getattribute [] \<lparr>raw = [(''ACK'', [''Success'', ''Success''])], config = scenario_config\<rparr>
     ''success'' = Inl (AttributeError ''success'') \<and>
   getattr \<lparr>raw = [(''ACK'', [''Success'', ''Success''])], config = scenario_config\<rparr>
     ''success'' = Inl (AttributeError ''success'') \<and>
   success \<lparr>raw = [(''ACK'', [''Success'', ''Success''])], config = scenario_config\<rparr>
     = Inl (AttributeError list_has_no_upper)"
  by code_simp

subsection \<open>C10: attribute access and the members of the record\<close>




end
